theory Spec2Isabelle
  imports Main
begin

section \<open>Values shared by the notebook's cells\<close>

text \<open>
  The notebook \<^verbatim>\<open>CDSCO_RAG_with_Llama.ipynb\<close> is Python. Its own code is the ingestion
  loop that fills \<^verbatim>\<open>docs\<close>, and the two functions \<^verbatim>\<open>ollama_llm\<close> and \<^verbatim>\<open>rag_chain\<close>.
  Everything else is a call into a library (requests, BeautifulSoup, PyMuPDF, LangChain,
  Chroma, ollama); such a call is a parameter of the model, and every call that can raise
  returns a sum whose left side is the exception.
\<close>

text \<open>A Python exception: its class name and the text \<^verbatim>\<open>str(e)\<close> prints.\<close>

datatype exn = Exception (exn_class: string) (exn_str: string)

text \<open>
  \<^verbatim>\<open>langchain_core.documents.Document\<close>: the notebook builds it with \<^verbatim>\<open>page_content\<close>
  and a \<^verbatim>\<open>metadata\<close> dictionary, and reads \<^verbatim>\<open>page_content\<close> back.
\<close>

record document =
  page_content :: string
  metadata :: "string \<rightharpoonup> string"

definition nl :: string where
  "nl = [CHR 0x0A]"

text \<open>Python's \<^verbatim>\<open>sep.join(parts)\<close>.\<close>

fun join :: "string \<Rightarrow> string list \<Rightarrow> string" where
  "join sep [] = []"
| "join sep [x] = x"
| "join sep (x # y # ys) = x @ sep @ join sep (y # ys)"

section \<open>RAG configuration: \<^verbatim>\<open>ollama_llm\<close> and \<^verbatim>\<open>rag_chain\<close>\<close>

text \<open>
  One entry of the \<^verbatim>\<open>messages\<close> list handed to \<^verbatim>\<open>ollama.chat\<close>, and also the
  \<^verbatim>\<open>message\<close> entry of its response.
\<close>

record chat_message =
  role :: string
  content :: string

record chat_response =
  message :: chat_message

text \<open>
  The two services \<^verbatim>\<open>rag_chain\<close> talks to. Both are calls with effects (the embedding and
  the generation go to the Ollama server), so each takes the state of the world and returns
  the state after the call: \<^verbatim>\<open>retriever.invoke(question)\<close> and
  \<^verbatim>\<open>ollama.chat(model=..., messages=...)\<close>.
\<close>

record 'w rag_env =
  retriever_invoke :: "'w \<Rightarrow> string \<Rightarrow> (exn + document list) \<times> 'w"
  ollama_chat :: "'w \<Rightarrow> string \<Rightarrow> chat_message list \<Rightarrow> (exn + chat_response) \<times> 'w"

text \<open>
  \<^verbatim>\<open>
  def ollama_llm(question, context):
      formatted_prompt = f"Question: {question}\nContext: {context}\nAnswer:"
      response = ollama.chat(model='llama3.2', messages=[{'role': 'user', 'content': formatted_prompt}])
      return response['message']['content']
  \<close>
\<close>

definition ollama_llm :: "'w rag_env \<Rightarrow> 'w \<Rightarrow> string \<Rightarrow> string \<Rightarrow> (exn + string) \<times> 'w" where
  "ollama_llm env w question context =
     (let formatted_prompt = ''Question: '' @ question @ nl @ ''Context: '' @ context @ nl @ ''Answer:''
      in case ollama_chat env w ''llama3.2'' [\<lparr>role = ''user'', content = formatted_prompt\<rparr>] of
           (Inl e, w') \<Rightarrow> (Inl e, w')
         | (Inr response, w') \<Rightarrow> (Inr (content (message response)), w'))"

text \<open>
  \<^verbatim>\<open>
  def rag_chain(question):
      retrieved_docs = retriever.invoke(question)
      formatted_context = "\n\n".join(doc.page_content for doc in retrieved_docs)
      return ollama_llm(question, formatted_context)
  \<close>
  An exception of \<^verbatim>\<open>retriever.invoke\<close> is not caught, so it ends the call.
\<close>

definition rag_chain :: "'w rag_env \<Rightarrow> 'w \<Rightarrow> string \<Rightarrow> (exn + string) \<times> 'w" where
  "rag_chain env w question =
     (case retriever_invoke env w question of
        (Inl e, w1) \<Rightarrow> (Inl e, w1)
      | (Inr retrieved_docs, w1) \<Rightarrow>
          (let formatted_context = join (nl @ nl) (map page_content retrieved_docs)
           in ollama_llm env w1 question formatted_context))"

section \<open>Document ingestion: the loop that fills \<^verbatim>\<open>docs\<close>\<close>

text \<open>
  A \<^verbatim>\<open>requests\<close> response: \<^verbatim>\<open>response.text\<close> (a str) and \<^verbatim>\<open>response.content\<close> (bytes;
  a \<^typ>\<open>char\<close> is one byte).
\<close>

record http_response =
  resp_text :: string
  resp_content :: string

text \<open>
  The library calls of the loop body. \<^verbatim>\<open>requests_get url\<close> is
  \<^verbatim>\<open>requests.get(url, headers=headers, timeout=15)\<close>; \<^verbatim>\<open>soup_find_iframe html\<close> is
  \<^verbatim>\<open>BeautifulSoup(html, "html.parser").find("iframe")\<close>, which gives \<^verbatim>\<open>None\<close> or a tag,
  here the dictionary of the tag's attributes; \<^verbatim>\<open>fitz_open\<close> is
  \<^verbatim>\<open>fitz.open(stream=..., filetype="pdf")\<close>, giving the pages, and \<^verbatim>\<open>get_text\<close> is
  \<^verbatim>\<open>page.get_text()\<close>.
\<close>

record 'pg ingest_env =
  requests_get :: "string \<Rightarrow> exn + http_response"
  soup_find_iframe :: "string \<Rightarrow> exn + (string \<rightharpoonup> string) option"
  urljoin :: "string \<Rightarrow> string \<Rightarrow> exn + string"
  fitz_open :: "string \<Rightarrow> exn + 'pg list"
  get_text :: "'pg \<Rightarrow> exn + string"

text \<open>Python's \<^verbatim>\<open>sub in data\<close> on bytes: \<^verbatim>\<open>sub\<close> occurs in \<^verbatim>\<open>data\<close> as a contiguous run.\<close>

fun bytes_in :: "string \<Rightarrow> string \<Rightarrow> bool" where
  "bytes_in sub [] = (sub = [])"
| "bytes_in sub (b # bs) = (take (length sub) (b # bs) = sub \<or> bytes_in sub bs)"

text \<open>Python's \<^verbatim>\<open>str(i)\<close> for the index \<^verbatim>\<open>i \<ge> 0\<close> that \<^verbatim>\<open>enumerate\<close> counts.\<close>

definition digit_char :: "nat \<Rightarrow> char" where
  "digit_char d = ''0123456789'' ! d"

function str_nat :: "nat \<Rightarrow> string" where
  "str_nat n = (if n < 10 then [digit_char n] else str_nat (n div 10) @ [digit_char (n mod 10)])"
  by pat_completeness auto
termination
  by (relation "measure id") auto

declare str_nat.simps [simp del]

text \<open>
  The generator \<^verbatim>\<open>page.get_text() for page in doc\<close>, consumed by \<^verbatim>\<open>"\n".join\<close>: the first
  page that raises ends it.
\<close>

fun page_texts :: "('pg \<Rightarrow> exn + string) \<Rightarrow> 'pg list \<Rightarrow> exn + string list" where
  "page_texts g [] = Inr []"
| "page_texts g (p # ps) =
     (case g p of
        Inl e \<Rightarrow> Inl e
      | Inr t \<Rightarrow> (case page_texts g ps of Inl e \<Rightarrow> Inl e | Inr ts \<Rightarrow> Inr (t # ts)))"

text \<open>
  The body of the \<^verbatim>\<open>try\<close> block for row \<^verbatim>\<open>i\<close> with \<^verbatim>\<open>jsp_url = row["PDF_URL"]\<close>:
  \<^verbatim>\<open>
  response = requests.get(jsp_url, headers=headers, timeout=15)
  soup = BeautifulSoup(response.text, "html.parser")
  iframe = soup.find("iframe")
  if iframe and iframe.has_attr("src"):
      pdf_url = urljoin(jsp_url, iframe["src"])
      pdf_resp = requests.get(pdf_url, headers=headers, timeout=15)
      if b"%PDF" in pdf_resp.content[:4]:  # Check PDF header
          doc = fitz.open(stream=pdf_resp.content, filetype="pdf")
          text = "\n".join(page.get_text() for page in doc)
          doc.close()
          docs.append(Document(page_content=text, metadata={"source": f"url_{i}"}))
  \<close>
  The result is \<open>Inl e\<close> when a call raised \<open>e\<close>, \<open>Inr (Some d)\<close> when \<open>d\<close> was appended
  to \<^verbatim>\<open>docs\<close>, and \<open>Inr None\<close> when the block ended without appending. A tag of
  BeautifulSoup is always true as a condition, so \<^verbatim>\<open>iframe and ...\<close> only excludes \<^verbatim>\<open>None\<close>;
  \<^verbatim>\<open>content[:4]\<close> is \<^term>\<open>take 4\<close>, which gives the whole content when it is shorter.
\<close>

definition try_body :: "'pg ingest_env \<Rightarrow> nat \<Rightarrow> string \<Rightarrow> exn + document option" where
  "try_body env i jsp_url =
     (case requests_get env jsp_url of
        Inl e \<Rightarrow> Inl e
      | Inr response \<Rightarrow>
     (case soup_find_iframe env (resp_text response) of
        Inl e \<Rightarrow> Inl e
      | Inr None \<Rightarrow> Inr None
      | Inr (Some iframe) \<Rightarrow>
     (case iframe ''src'' of
        None \<Rightarrow> Inr None
      | Some src \<Rightarrow>
     (case urljoin env jsp_url src of
        Inl e \<Rightarrow> Inl e
      | Inr pdf_url \<Rightarrow>
     (case requests_get env pdf_url of
        Inl e \<Rightarrow> Inl e
      | Inr pdf_resp \<Rightarrow>
          if bytes_in ''%PDF'' (take 4 (resp_content pdf_resp)) then
            (case fitz_open env (resp_content pdf_resp) of
               Inl e \<Rightarrow> Inl e
             | Inr doc \<Rightarrow>
            (case page_texts (get_text env) doc of
               Inl e \<Rightarrow> Inl e
             | Inr texts \<Rightarrow>
                 Inr (Some \<lparr>page_content = join nl texts,
                            metadata = [''source'' \<mapsto> ''url_'' @ str_nat i]\<rparr>)))
          else Inr None)))))"

text \<open>
  The loop over the rows of \<^verbatim>\<open>pdf_links.csv\<close>, which an earlier cell of the notebook wrote
  with the single column \<^verbatim>\<open>PDF_URL\<close>; \<open>rows\<close> is that column. The state is \<^verbatim>\<open>docs\<close> and
  the lines printed so far.
  \<^verbatim>\<open>
  for i, row in enumerate(reader):
      jsp_url = row["PDF_URL"]
      try:
          ...
      except Exception as e:
          print(f"Error on {jsp_url}: {e}")
  \<close>
\<close>

fun ingest_loop ::
  "'pg ingest_env \<Rightarrow> nat \<Rightarrow> string list \<Rightarrow> document list \<times> string list \<Rightarrow> document list \<times> string list"
where
  "ingest_loop env i [] (docs, out) = (docs, out)"
| "ingest_loop env i (jsp_url # rest) (docs, out) =
     (case try_body env i jsp_url of
        Inl e \<Rightarrow> ingest_loop env (Suc i) rest (docs, out @ [''Error on '' @ jsp_url @ '': '' @ exn_str e])
      | Inr None \<Rightarrow> ingest_loop env (Suc i) rest (docs, out)
      | Inr (Some d) \<Rightarrow> ingest_loop env (Suc i) rest (docs @ [d], out))"

definition ingest :: "'pg ingest_env \<Rightarrow> string list \<Rightarrow> document list \<times> string list" where
  "ingest env rows = ingest_loop env 0 rows ([], [])"

text \<open>
  What row \<open>i\<close> of the file adds to \<^verbatim>\<open>docs\<close>, and what it prints: the two effects of one
  pass through the loop body, read off \<^const>\<open>try_body\<close>.
\<close>

definition added_by :: "'pg ingest_env \<Rightarrow> nat \<times> string \<Rightarrow> document list" where
  "added_by env = (\<lambda>(i, jsp_url). case try_body env i jsp_url of Inr (Some d) \<Rightarrow> [d] | _ \<Rightarrow> [])"

definition printed_by :: "'pg ingest_env \<Rightarrow> nat \<times> string \<Rightarrow> string list" where
  "printed_by env = (\<lambda>(i, jsp_url). case try_body env i jsp_url of
                       Inl e \<Rightarrow> [''Error on '' @ jsp_url @ '': '' @ exn_str e] | _ \<Rightarrow> [])"

section \<open>Example environments\<close>

text \<open>
  A world for the examples: the vector store's documents and the number of calls made to
  the Ollama server so far. The example retriever returns the first four stored documents,
  the example model answers with the prompt it was given; both count their call.
\<close>

record demo_world =
  index :: "document list"
  calls :: nat

definition demo_index :: "document list" where
  "demo_index =
     [\<lparr>page_content = ''Drug A: condition X.'', metadata = [''source'' \<mapsto> ''url_0'']\<rparr>,
      \<lparr>page_content = ''Drug B: condition Y.'', metadata = [''source'' \<mapsto> ''url_1'']\<rparr>]"

definition demo_env :: "demo_world rag_env" where
  "demo_env =
     \<lparr>retriever_invoke = (\<lambda>w q. (Inr (take 4 (index w)), w\<lparr>calls := Suc (calls w)\<rparr>)),
      ollama_chat = (\<lambda>w m ms. (Inr \<lparr>message = \<lparr>role = ''assistant'', content = concat (map content ms)\<rparr>\<rparr>,
                                 w\<lparr>calls := Suc (calls w)\<rparr>))\<rparr>"

text \<open>The same, with a generation call that raises, and with a retrieval call that raises.\<close>

definition chat_down_env :: "demo_world rag_env" where
  "chat_down_env =
     demo_env\<lparr>ollama_chat := (\<lambda>w m ms. (Inl (Exception ''ResponseError'' ''model not found''),
                                         w\<lparr>calls := Suc (calls w)\<rparr>))\<rparr>"

definition retriever_down_env :: "demo_world rag_env" where
  "retriever_down_env =
     demo_env\<lparr>retriever_invoke := (\<lambda>w q. (Inl (Exception ''ResponseError'' ''model not found''),
                                           w\<lparr>calls := Suc (calls w)\<rparr>))\<rparr>"

text \<open>
  A small site: \<^verbatim>\<open>a.jsp\<close> embeds a PDF, \<^verbatim>\<open>b.jsp\<close> has no iframe, \<^verbatim>\<open>d.jsp\<close> embeds a file
  that is an HTML error page, and every other URL times out.
\<close>

definition demo_site :: "string ingest_env" where
  "demo_site =
     \<lparr>requests_get = (\<lambda>url.
        if url = ''a.jsp'' then Inr \<lparr>resp_text = ''<iframe src=a.pdf>'', resp_content = ''''\<rparr>
        else if url = ''a.pdf'' then Inr \<lparr>resp_text = '''', resp_content = ''%PDF-1.4 data''\<rparr>
        else if url = ''b.jsp'' then Inr \<lparr>resp_text = ''<p>moved</p>'', resp_content = ''''\<rparr>
        else if url = ''d.jsp'' then Inr \<lparr>resp_text = ''<iframe src=d.pdf>'', resp_content = ''''\<rparr>
        else if url = ''d.pdf'' then Inr \<lparr>resp_text = '''', resp_content = ''<html>404''\<rparr>
        else Inl (Exception ''ReadTimeout'' ''timed out'')),
      soup_find_iframe = (\<lambda>html.
        if html = ''<iframe src=a.pdf>'' then Inr (Some [''src'' \<mapsto> ''a.pdf''])
        else if html = ''<iframe src=d.pdf>'' then Inr (Some [''src'' \<mapsto> ''d.pdf''])
        else Inr None),
      urljoin = (\<lambda>base url. Inr url),
      fitz_open = (\<lambda>stream. Inr [''page one'', ''page two'']),
      get_text = (\<lambda>page. Inr page)\<rparr>"

section \<open>Properties of \<^verbatim>\<open>join\<close> and of the header test\<close>

lemma join_Cons: "join sep (x # xs) = (if xs = [] then x else x @ sep @ join sep xs)"
  by (cases xs) simp_all

lemma join_append:
  "xs \<noteq> [] \<Longrightarrow> ys \<noteq> [] \<Longrightarrow> join sep (xs @ ys) = join sep xs @ sep @ join sep ys"
proof (induction xs)
  case Nil
  then show ?case by simp
next
  case (Cons x xs)
  then show ?case by (cases xs; cases ys) (simp_all add: join_Cons)
qed

text \<open>A run longer than the data does not occur in it.\<close>

lemma bytes_in_short: "length bs < length sub \<Longrightarrow> \<not> bytes_in sub bs"
  by (induction bs) auto

text \<open>
  So \<^verbatim>\<open>b"%PDF" in content[:4]\<close> holds exactly when the first four bytes are \<^verbatim>\<open>%PDF\<close>:
  the slice has no room for the four bytes anywhere but at its start.
\<close>

lemma bytes_in_header:
  assumes "length sub = 4"
  shows "bytes_in sub (take 4 bs) = (take 4 bs = sub)"
proof (cases "take 4 bs")
  case Nil
  with assms show ?thesis by auto
next
  case (Cons b bs')
  then have "length (b # bs') \<le> 4"
    by (metis length_take min.cobounded2)
  with assms have "take (length sub) (b # bs') = b # bs'" and "\<not> bytes_in sub bs'"
    by (simp_all add: bytes_in_short)
  with Cons show ?thesis by simp
qed

section \<open>The query path\<close>

text \<open>
  Once retrieval has returned, \<^verbatim>\<open>rag_chain\<close> is one call of \<^verbatim>\<open>ollama.chat\<close> on the
  formatted prompt, and its result is that call's result with the answer text read out of
  the response.
\<close>

lemma rag_chain_retrieved:
  assumes "retriever_invoke env w question = (Inr retrieved_docs, w1)"
  shows "rag_chain env w question =
    apfst (map_sum id (\<lambda>response. content (message response)))
      (ollama_chat env w1 ''llama3.2''
        [\<lparr>role = ''user'',
          content = ''Question: '' @ question @ nl @ ''Context: ''
                    @ join (nl @ nl) (map page_content retrieved_docs) @ nl @ ''Answer:''\<rparr>])"
  using assms
  by (simp add: rag_chain_def ollama_llm_def Let_def split: prod.splits sum.splits)

lemma rag_chain_retrieval_raises:
  "retriever_invoke env w question = (Inl e, w1) \<Longrightarrow> rag_chain env w question = (Inl e, w1)"
  by (simp add: rag_chain_def)

text \<open>
  C1. For every question, \<^verbatim>\<open>rag_chain\<close> joins the \<^verbatim>\<open>page_content\<close> of the retrieved
  documents in the order the retriever returned them, with a blank line (two newlines)
  between them, so the first retrieved document opens the context; it sends the single
  prompt \<^verbatim>\<open>Question: <question>\nContext: <context>\nAnswer:\<close> to the model, and what it
  returns is the \<^verbatim>\<open>content\<close> string of the model's response, unchanged.
\<close>

theorem rag_chain_context_prompt_output:
  assumes "retriever_invoke env w question = (Inr retrieved_docs, w1)"
  shows "rag_chain env w question =
    apfst (map_sum id (\<lambda>response. content (message response)))
      (ollama_chat env w1 ''llama3.2''
        [\<lparr>role = ''user'',
          content = ''Question: '' @ question @ nl @ ''Context: ''
                    @ join (nl @ nl) (map page_content retrieved_docs) @ nl @ ''Answer:''\<rparr>])
    \<and> (\<forall>d ds. retrieved_docs = d # ds \<longrightarrow>
          join (nl @ nl) (map page_content retrieved_docs) =
            (if ds = [] then page_content d
             else page_content d @ nl @ nl @ join (nl @ nl) (map page_content ds)))"
  using rag_chain_retrieved [OF assms] by (simp add: join_Cons)

theorem rag_chain_context_prompt_output_witness:
  "rag_chain demo_env \<lparr>index = demo_index, calls = 0\<rparr> ''What is Drug A for?'' =
     (Inr (''Question: What is Drug A for?'' @ nl @ ''Context: Drug A: condition X.'' @ nl @ nl
           @ ''Drug B: condition Y.'' @ nl @ ''Answer:''),
      \<lparr>index = demo_index, calls = 2\<rparr>)
   \<and> join (nl @ nl) (map page_content demo_index) =
       ''Drug A: condition X.'' @ nl @ nl @ ''Drug B: condition Y.''"
proof -
  have r: "retriever_invoke demo_env \<lparr>index = demo_index, calls = 0\<rparr> ''What is Drug A for?''
           = (Inr demo_index, \<lparr>index = demo_index, calls = 1\<rparr>)"
    by (simp add: demo_env_def demo_index_def)
  note t = rag_chain_context_prompt_output [OF r]
  from t have "rag_chain demo_env \<lparr>index = demo_index, calls = 0\<rparr> ''What is Drug A for?'' =
     (Inr (''Question: What is Drug A for?'' @ nl @ ''Context: Drug A: condition X.'' @ nl @ nl
           @ ''Drug B: condition Y.'' @ nl @ ''Answer:''),
      \<lparr>index = demo_index, calls = 2\<rparr>)"
    by (simp add: demo_env_def demo_index_def)
  moreover from t have "join (nl @ nl) (map page_content demo_index) =
       ''Drug A: condition X.'' @ nl @ nl @ ''Drug B: condition Y.''"
    by (simp add: demo_index_def)
  ultimately show ?thesis by simp
qed

text \<open>
  C4. When retrieval returns no documents, \<^verbatim>\<open>rag_chain\<close> still calls the model, with the
  prompt whose context is the empty string, and whenever that call returns a response the
  result of \<^verbatim>\<open>rag_chain\<close> is its answer text, not an error.
\<close>

theorem rag_chain_empty_retrieval:
  assumes "retriever_invoke env w question = (Inr [], w1)"
  shows "rag_chain env w question =
    apfst (map_sum id (\<lambda>response. content (message response)))
      (ollama_chat env w1 ''llama3.2''
        [\<lparr>role = ''user'',
          content = ''Question: '' @ question @ nl @ ''Context: '' @ [] @ nl @ ''Answer:''\<rparr>])
    \<and> (\<forall>response w2.
          ollama_chat env w1 ''llama3.2''
            [\<lparr>role = ''user'',
              content = ''Question: '' @ question @ nl @ ''Context: '' @ [] @ nl @ ''Answer:''\<rparr>]
            = (Inr response, w2)
          \<longrightarrow> rag_chain env w question = (Inr (content (message response)), w2))"
  using rag_chain_retrieved [OF assms] by simp

theorem rag_chain_empty_retrieval_witness:
  "rag_chain demo_env \<lparr>index = [], calls = 0\<rparr> ''What is Drug A for?'' =
     (Inr (''Question: What is Drug A for?'' @ nl @ ''Context: '' @ nl @ ''Answer:''),
      \<lparr>index = [], calls = 2\<rparr>)"
proof -
  have r: "retriever_invoke demo_env \<lparr>index = [], calls = 0\<rparr> ''What is Drug A for?''
           = (Inr [], \<lparr>index = [], calls = 1\<rparr>)"
    by (simp add: demo_env_def)
  from rag_chain_empty_retrieval [OF r] show ?thesis
    by (simp add: demo_env_def)
qed

text \<open>
  C5, as stated: a failing generation call makes \<^verbatim>\<open>rag_chain\<close> fail with a
  \<^verbatim>\<open>GenerationFailure\<close> that identifies the failed stage. The code has no such error: with
  a model that raises \<^verbatim>\<open>ResponseError\<close>, the outcome of \<^verbatim>\<open>rag_chain\<close> is that very
  \<^verbatim>\<open>ResponseError\<close>, and it is the same outcome as when the retrieval raises it instead.
\<close>

theorem rag_chain_generation_failure_counterexample:
  "fst (rag_chain chat_down_env \<lparr>index = demo_index, calls = 0\<rparr> ''What is Drug A for?'')
     = Inl (Exception ''ResponseError'' ''model not found'')
   \<and> fst (rag_chain retriever_down_env \<lparr>index = demo_index, calls = 0\<rparr> ''What is Drug A for?'')
     = fst (rag_chain chat_down_env \<lparr>index = demo_index, calls = 0\<rparr> ''What is Drug A for?'')"
  by (simp add: rag_chain_def ollama_llm_def chat_down_env_def retriever_down_env_def demo_env_def)

text \<open>
  C5, amended. If the call of \<^verbatim>\<open>ollama.chat\<close> raises, \<^verbatim>\<open>rag_chain\<close> ends with that same
  exception, unchanged, and returns no string; the world it leaves is the one right after
  that one call, so the model has been called once and not again.
\<close>

theorem rag_chain_generation_failure:
  assumes "retriever_invoke env w question = (Inr retrieved_docs, w1)"
    and "ollama_chat env w1 ''llama3.2''
           [\<lparr>role = ''user'',
             content = ''Question: '' @ question @ nl @ ''Context: ''
                       @ join (nl @ nl) (map page_content retrieved_docs) @ nl @ ''Answer:''\<rparr>]
         = (Inl e, w2)"
  shows "rag_chain env w question = (Inl e, w2)"
  using rag_chain_retrieved [OF assms(1)] assms(2) by simp

theorem rag_chain_generation_failure_witness:
  "rag_chain chat_down_env \<lparr>index = demo_index, calls = 0\<rparr> ''What is Drug A for?'' =
     (Inl (Exception ''ResponseError'' ''model not found''), \<lparr>index = demo_index, calls = 2\<rparr>)"
  using rag_chain_generation_failure
    [of chat_down_env "\<lparr>index = demo_index, calls = 0\<rparr>" "''What is Drug A for?''"
        demo_index "\<lparr>index = demo_index, calls = 1\<rparr>"
        "Exception ''ResponseError'' ''model not found''" "\<lparr>index = demo_index, calls = 2\<rparr>"]
  by (simp add: chat_down_env_def demo_env_def demo_index_def)

text \<open>
  C9. Let the providers be deterministic: what the retriever returns depends only on the
  question and on the index part of the world, and what the model returns only on its
  arguments. Then two calls of \<^verbatim>\<open>rag_chain\<close> with the same question, made in any two
  worlds with the same index, give the same outcome: \<^verbatim>\<open>rag_chain\<close> carries nothing of its
  own from one call to the next.
\<close>

theorem rag_chain_idempotent:
  assumes retr: "\<forall>w w' q. index_of w = index_of w' \<longrightarrow>
                   fst (retriever_invoke env w q) = fst (retriever_invoke env w' q)"
    and chat: "\<forall>w w' m ms. fst (ollama_chat env w m ms) = fst (ollama_chat env w' m ms)"
    and same: "index_of w = index_of w'"
  shows "fst (rag_chain env w question) = fst (rag_chain env w' question)"
proof -
  obtain r w1 where a: "retriever_invoke env w question = (r, w1)"
    by (cases "retriever_invoke env w question")
  obtain r' w1' where b: "retriever_invoke env w' question = (r', w1')"
    by (cases "retriever_invoke env w' question")
  from retr same a b have eq: "r' = r"
    by (metis fst_conv)
  show ?thesis
  proof (cases r)
    case (Inl e)
    with a b eq show ?thesis by (simp add: rag_chain_retrieval_raises)
  next
    case (Inr ds)
    let ?ms = "[\<lparr>role = ''user'',
          content = ''Question: '' @ question @ nl @ ''Context: ''
                    @ join (nl @ nl) (map page_content ds) @ nl @ ''Answer:''\<rparr>]"
    from chat have "fst (ollama_chat env w1 ''llama3.2'' ?ms) = fst (ollama_chat env w1' ''llama3.2'' ?ms)"
      by blast
    with Inr a b eq show ?thesis
      by (simp add: rag_chain_retrieved)
  qed
qed

text \<open>
  The example: the second of two calls in a row starts in the world the first one left,
  which differs from the initial one (two more calls are counted), and answers the same.
\<close>

theorem rag_chain_idempotent_witness:
  "fst (rag_chain demo_env (snd (rag_chain demo_env \<lparr>index = demo_index, calls = 0\<rparr> ''What is Drug A for?''))
          ''What is Drug A for?'')
   = fst (rag_chain demo_env \<lparr>index = demo_index, calls = 0\<rparr> ''What is Drug A for?'')
   \<and> snd (rag_chain demo_env \<lparr>index = demo_index, calls = 0\<rparr> ''What is Drug A for?'')
       \<noteq> \<lparr>index = demo_index, calls = 0\<rparr>"
proof -
  have r: "\<forall>w w' q. index w = index w' \<longrightarrow>
             fst (retriever_invoke demo_env w q) = fst (retriever_invoke demo_env w' q)"
    by (simp add: demo_env_def)
  have c: "\<forall>w w' m ms. fst (ollama_chat demo_env w m ms) = fst (ollama_chat demo_env w' m ms)"
    by (simp add: demo_env_def)
  have s: "index \<lparr>index = demo_index, calls = 0\<rparr>
           = index (snd (rag_chain demo_env \<lparr>index = demo_index, calls = 0\<rparr> ''What is Drug A for?''))"
    by (simp add: rag_chain_def ollama_llm_def demo_env_def)
  have n: "snd (rag_chain demo_env \<lparr>index = demo_index, calls = 0\<rparr> ''What is Drug A for?'')
       \<noteq> \<lparr>index = demo_index, calls = 0\<rparr>"
    by (simp add: rag_chain_def ollama_llm_def demo_env_def)
  from rag_chain_idempotent [of index demo_env, OF r c s, of "''What is Drug A for?''"] n
  show ?thesis by simp
qed

section \<open>The ingestion loop\<close>

lemma try_body_no_iframe:
  "requests_get env jsp_url = Inr response \<Longrightarrow> soup_find_iframe env (resp_text response) = Inr None
   \<Longrightarrow> try_body env i jsp_url = Inr None"
  by (simp add: try_body_def)

lemma try_body_no_header:
  "requests_get env jsp_url = Inr response
   \<Longrightarrow> soup_find_iframe env (resp_text response) = Inr (Some iframe)
   \<Longrightarrow> iframe ''src'' = Some src
   \<Longrightarrow> urljoin env jsp_url src = Inr pdf_url
   \<Longrightarrow> requests_get env pdf_url = Inr pdf_resp
   \<Longrightarrow> take 4 (resp_content pdf_resp) \<noteq> ''%PDF''
   \<Longrightarrow> try_body env i jsp_url = Inr None"
  by (simp add: try_body_def bytes_in_header)

text \<open>
  The loop in closed form: every row contributes its own documents and its own printed
  line, whatever happened at the rows before it.
\<close>

lemma ingest_loop_closed:
  "ingest_loop env i rows (docs, out) =
     (docs @ concat (map (added_by env) (List.enumerate i rows)),
      out @ concat (map (printed_by env) (List.enumerate i rows)))"
proof (induction rows arbitrary: i docs out)
  case Nil
  show ?case by simp
next
  case (Cons jsp_url rest)
  show ?case
    by (simp add: Cons.IH added_by_def printed_by_def split: sum.splits option.splits)
qed

text \<open>
  C10. A row whose page was fetched and has no iframe, and a row whose embedded file was
  downloaded and does not start with the four bytes \<^verbatim>\<open>%PDF\<close>, end the \<^verbatim>\<open>try\<close> block
  without an exception and without a document; such a row adds nothing to \<^verbatim>\<open>docs\<close> and
  prints nothing. A row prints a line exactly when a call in its \<^verbatim>\<open>try\<close> block raised.
  The loop goes through all rows: the final \<^verbatim>\<open>docs\<close> and the printed lines are what the
  rows contribute one by one, in order, so a row that fails or is skipped stops nothing.
\<close>

theorem ingest_skips_silently:
  "(requests_get env jsp_url = Inr response \<and> soup_find_iframe env (resp_text response) = Inr None
      \<longrightarrow> try_body env i jsp_url = Inr None)
   \<and> (requests_get env jsp_url = Inr response
      \<and> soup_find_iframe env (resp_text response) = Inr (Some iframe)
      \<and> iframe ''src'' = Some src
      \<and> urljoin env jsp_url src = Inr pdf_url
      \<and> requests_get env pdf_url = Inr pdf_resp
      \<and> take 4 (resp_content pdf_resp) \<noteq> ''%PDF''
      \<longrightarrow> try_body env i jsp_url = Inr None)
   \<and> (try_body env i jsp_url = Inr None
      \<longrightarrow> added_by env (i, jsp_url) = [] \<and> printed_by env (i, jsp_url) = [])
   \<and> (printed_by env (i, jsp_url) \<noteq> [] \<longleftrightarrow> (\<exists>e. try_body env i jsp_url = Inl e))
   \<and> ingest env rows =
        (concat (map (added_by env) (List.enumerate 0 rows)),
         concat (map (printed_by env) (List.enumerate 0 rows)))"
  by (auto simp: try_body_no_iframe try_body_no_header ingest_def ingest_loop_closed
        added_by_def printed_by_def split: sum.splits option.splits)

theorem ingest_skips_silently_witness:
  "try_body demo_site 1 ''b.jsp'' = Inr None
   \<and> added_by demo_site (1, ''b.jsp'') = [] \<and> printed_by demo_site (1, ''b.jsp'') = []
   \<and> try_body demo_site 3 ''d.jsp'' = Inr None
   \<and> added_by demo_site (3, ''d.jsp'') = [] \<and> printed_by demo_site (3, ''d.jsp'') = []
   \<and> printed_by demo_site (2, ''c.jsp'') = [''Error on c.jsp: timed out'']
   \<and> ingest demo_site [''a.jsp'', ''b.jsp'', ''c.jsp'', ''d.jsp'', ''a.jsp''] =
       ([\<lparr>page_content = ''page one'' @ nl @ ''page two'', metadata = [''source'' \<mapsto> ''url_0'']\<rparr>,
         \<lparr>page_content = ''page one'' @ nl @ ''page two'', metadata = [''source'' \<mapsto> ''url_4'']\<rparr>],
        [''Error on c.jsp: timed out''])"
proof -
  note b = ingest_skips_silently
    [of demo_site "''b.jsp''" "\<lparr>resp_text = ''<p>moved</p>'', resp_content = ''''\<rparr>" 1
        "[''src'' \<mapsto> ''b.pdf'']" "''b.pdf''" "''b.pdf''" "\<lparr>resp_text = '''', resp_content = ''''\<rparr>"
        "[''a.jsp'', ''b.jsp'', ''c.jsp'', ''d.jsp'', ''a.jsp'']"]
  note d = ingest_skips_silently
    [of demo_site "''d.jsp''" "\<lparr>resp_text = ''<iframe src=d.pdf>'', resp_content = ''''\<rparr>" 3
        "[''src'' \<mapsto> ''d.pdf'']" "''d.pdf''" "''d.pdf''" "\<lparr>resp_text = '''', resp_content = ''<html>404''\<rparr>"
        "[]"]
  note c = ingest_skips_silently
    [of demo_site "''c.jsp''" "\<lparr>resp_text = '''', resp_content = ''''\<rparr>" 2
        "[''src'' \<mapsto> ''c.pdf'']" "''c.pdf''" "''c.pdf''" "\<lparr>resp_text = '''', resp_content = ''''\<rparr>"
        "[]"]
  have a0: "try_body demo_site 0 ''a.jsp'' =
      Inr (Some \<lparr>page_content = ''page one'' @ nl @ ''page two'', metadata = [''source'' \<mapsto> ''url_0'']\<rparr>)"
    by (simp add: try_body_def demo_site_def str_nat.simps digit_char_def)
  have a4: "try_body demo_site 4 ''a.jsp'' =
      Inr (Some \<lparr>page_content = ''page one'' @ nl @ ''page two'', metadata = [''source'' \<mapsto> ''url_4'']\<rparr>)"
    by (simp add: try_body_def demo_site_def str_nat.simps digit_char_def)
  have c2: "try_body demo_site 2 ''c.jsp'' = Inl (Exception ''ReadTimeout'' ''timed out'')"
    by (simp add: try_body_def demo_site_def)
  from b have b1: "try_body demo_site 1 ''b.jsp'' = Inr None"
    by (simp add: demo_site_def)
  with b have b1': "added_by demo_site (1, ''b.jsp'') = [] \<and> printed_by demo_site (1, ''b.jsp'') = []"
    by blast
  from d have d3: "try_body demo_site 3 ''d.jsp'' = Inr None"
    by (simp add: demo_site_def)
  with d have d3': "added_by demo_site (3, ''d.jsp'') = [] \<and> printed_by demo_site (3, ''d.jsp'') = []"
    by blast
  from c c2 have "printed_by demo_site (2, ''c.jsp'') \<noteq> []"
    by blast
  with c2 have c2': "printed_by demo_site (2, ''c.jsp'') = [''Error on c.jsp: timed out'']"
    by (simp add: printed_by_def)
  from b have "ingest demo_site [''a.jsp'', ''b.jsp'', ''c.jsp'', ''d.jsp'', ''a.jsp''] =
        (concat (map (added_by demo_site) (List.enumerate 0 [''a.jsp'', ''b.jsp'', ''c.jsp'', ''d.jsp'', ''a.jsp''])),
         concat (map (printed_by demo_site) (List.enumerate 0 [''a.jsp'', ''b.jsp'', ''c.jsp'', ''d.jsp'', ''a.jsp''])))"
    by blast
  with a0 b1 c2 d3 a4 have "ingest demo_site [''a.jsp'', ''b.jsp'', ''c.jsp'', ''d.jsp'', ''a.jsp''] =
       ([\<lparr>page_content = ''page one'' @ nl @ ''page two'', metadata = [''source'' \<mapsto> ''url_0'']\<rparr>,
         \<lparr>page_content = ''page one'' @ nl @ ''page two'', metadata = [''source'' \<mapsto> ''url_4'']\<rparr>],
        [''Error on c.jsp: timed out''])"
    by (simp add: added_by_def printed_by_def numeral_eq_Suc)
  with b1 b1' d3 d3' c2' show ?thesis by blast
qed

end
